theory Spec2Isabelle
  imports Main "HOL-Library.Sublist"
begin

section \<open>JavaScript strings\<close>

text \<open>
  A JavaScript string is a sequence of code units; here a \<^typ>\<open>string\<close>, each
  \<^typ>\<open>char\<close> standing for one code unit in the range 0..255. Of the code units that
  \<open>String.prototype.trim\<close> removes (ECMAScript WhiteSpace and LineTerminator) the ones
  in that range are TAB, LF, VT, FF, CR, SPACE and NBSP.
\<close>

definition isWhiteSpace :: "char \<Rightarrow> bool" where
  "isWhiteSpace c =
     (c = CHR 0x09 \<or> c = CHR 0x0A \<or> c = CHR 0x0B \<or> c = CHR 0x0C \<or> c = CHR 0x0D \<or>
      c = CHR 0x20 \<or> c = CHR 0xA0)"

text \<open>\<open>s.trim()\<close>: leading and trailing white space removed.\<close>

definition trim :: "string \<Rightarrow> string" where
  "trim s = rev (dropWhile isWhiteSpace (rev (dropWhile isWhiteSpace s)))"

text \<open>
  \<open>s.split(sep)\<close> for a string separator. For a non-empty separator the string is
  scanned from the left; at each position where the separator matches, the piece read so
  far (kept reversed in \<open>acc\<close>) is emitted and scanning resumes after the match; the
  rest of the string is the last piece. The result is never the empty array. For the
  empty separator JavaScript returns the code units one by one.
\<close>

function split_from :: "string \<Rightarrow> string \<Rightarrow> string \<Rightarrow> string list" where
  "split_from sep acc [] = [rev acc]"
| "split_from sep acc (c # cs) =
     (if sep \<noteq> [] \<and> prefix sep (c # cs)
      then rev acc # split_from sep [] (drop (length sep) (c # cs))
      else split_from sep (c # acc) cs)"
  by pat_completeness auto
termination
  by (relation "measure (\<lambda>(sep, acc, s). length s)") auto

definition split :: "string \<Rightarrow> string \<Rightarrow> string list" where
  "split s sep = (if sep = [] then map (\<lambda>c. [c]) s else split_from sep [] s)"

text \<open>\<open>parts.join(sep)\<close>.\<close>

fun join :: "string list \<Rightarrow> string \<Rightarrow> string" where
  "join [] sep = []"
| "join [x] sep = x"
| "join (x # y # ys) sep = x @ sep @ join (y # ys) sep"

text \<open>The separator of line 85, \<open>"\n\n"\<close>: two line feeds.\<close>

definition blank_line :: string where
  "blank_line = [CHR 0x0A, CHR 0x0A]"

text \<open>
  Truthiness of a value that is a string or \<open>undefined\<close> (an entry of
  \<open>process.env\<close>): \<open>undefined\<close> and the empty string are falsy.
\<close>

definition truthy :: "string option \<Rightarrow> bool" where
  "truthy v = (case v of None \<Rightarrow> False | Some s \<Rightarrow> s \<noteq> [])"

text \<open>A string or \<open>undefined\<close> inside a template literal.\<close>

definition interpolate :: "string option \<Rightarrow> string" where
  "interpolate v = (case v of None \<Rightarrow> ''undefined'' | Some s \<Rightarrow> s)"

section \<open>Errors, effects and the environment\<close>

text \<open>
  What a function of the module can throw: an \<open>Error\<close> it constructs itself with a
  message, a \<open>TypeError\<close> of the runtime (a property read on \<open>undefined\<close> or
  \<open>null\<close>), or whatever an external call threw (\<open>execSync\<close> on a non-zero exit,
  a rejected \<open>fetch\<close>, an API error of the SDK), kept as its string rendering.
\<close>

datatype js_error = Error string | TypeError | Thrown string

text \<open>\<open>`${error}`\<close>: the string rendering of a thrown value.\<close>

fun error_toString :: "js_error \<Rightarrow> string" where
  "error_toString (Error m) = (if m = [] then ''Error'' else ''Error: '' @ m)"
| "error_toString TypeError = ''TypeError''"
| "error_toString (Thrown s) = s"

datatype json =
    JNull
  | JBool bool
  | JNumber int
  | JString string
  | JArray "json list"
  | JObject "(string \<times> json) list"

text \<open>The request of \<open>anthropicClient.beta.promptCaching.messages.create\<close>.\<close>

record llm_request =
  apiKey :: string
  model :: string
  max_tokens :: nat
  temperature :: int
  system_text :: string
  system_cache_control :: string
  user_text :: string

text \<open>A content block of the reply: a text block, or a block of another type.\<close>

datatype content_block = TextBlock string | NonTextBlock string

text \<open>
  A \<open>fetch\<close> request. \<open>payload\<close> is the object handed to \<open>JSON.stringify\<close> for
  the request body.
\<close>

record http_request =
  url :: string
  http_method :: string
  headers :: "(string \<times> string) list"
  payload :: json

text \<open>
  A \<open>fetch\<close> response: the status, and what \<open>response.text()\<close> and
  \<open>response.json()\<close> resolve to or reject with.
\<close>

record http_response =
  status :: nat
  response_text :: "js_error + string"
  response_json :: "js_error + json"

definition ok :: "http_response \<Rightarrow> bool" where
  "ok response = (200 \<le> status response \<and> status response \<le> 299)"

text \<open>
  The effects of a run, in order: shell commands given to \<open>execSync\<close>, completion
  requests to the language model, and hosting-API requests. Console output is not
  recorded.
\<close>

datatype action = Command string | Completion llm_request | Request http_request

text \<open>
  The world outside the module. Each external call is answered as a function of the
  effects so far and of the call, with \<open>Inl\<close> for a thrown error.
\<close>

record world =
  process_env :: "string \<Rightarrow> string option"
  execSync :: "action list \<Rightarrow> string \<Rightarrow> js_error + string"
  messages_create :: "action list \<Rightarrow> llm_request \<Rightarrow> js_error + content_block list"
  fetch :: "action list \<Rightarrow> http_request \<Rightarrow> js_error + http_response"

text \<open>
  A computation takes the effects so far and returns its outcome (\<open>Inl\<close> a thrown
  error, \<open>Inr\<close> a value) with the effects extended.
\<close>

type_synonym 'a io = "action list \<Rightarrow> (js_error + 'a) \<times> action list"

definition io_return :: "'a \<Rightarrow> 'a io" where
  "io_return a t = (Inr a, t)"

definition io_throw :: "js_error \<Rightarrow> 'a io" where
  "io_throw e t = (Inl e, t)"

definition io_bind :: "'a io \<Rightarrow> ('a \<Rightarrow> 'b io) \<Rightarrow> 'b io" where
  "io_bind m f t = (case m t of (Inl e, t') \<Rightarrow> (Inl e, t') | (Inr a, t') \<Rightarrow> f a t')"

text \<open>\<open>try { m } catch (error) { h error }\<close>.\<close>

definition io_catch :: "'a io \<Rightarrow> (js_error \<Rightarrow> 'a io) \<Rightarrow> 'a io" where
  "io_catch m h t = (case m t of (Inl e, t') \<Rightarrow> h e t' | (Inr a, t') \<Rightarrow> (Inr a, t'))"

definition exec :: "world \<Rightarrow> string \<Rightarrow> string io" where
  "exec w cmd t = (execSync w t cmd, t @ [Command cmd])"

definition create :: "world \<Rightarrow> llm_request \<Rightarrow> content_block list io" where
  "create w request t = (messages_create w t request, t @ [Completion request])"

definition send :: "world \<Rightarrow> http_request \<Rightarrow> http_response io" where
  "send w request t = (fetch w t request, t @ [Request request])"

section \<open>createPullRequest.ts\<close>

record GeneratedMessage =
  title :: string
  body :: string

record PullRequestOptions =
  owner :: string
  repo :: string
  head :: string
  base :: string

record GitHubIssueOptions =
  issue_owner :: string
  issue_repo :: string
  issue_title :: string
  issue_body :: string
  labels :: "string list option"

definition SYSTEM_PROMPT :: string where
  "SYSTEM_PROMPT = ''You are a helpful assistant that generates clear and concise pull request messages. Use markdown.''"

text \<open>\<open>getCurrentBranch\<close>, lines 28 to 46.\<close>

definition getCurrentBranch :: "world \<Rightarrow> string io" where
  "getCurrentBranch w =
     (if truthy (process_env w ''VERCEL'') then
        (case process_env w ''VERCEL_GIT_COMMIT_REF'' of
           None \<Rightarrow> io_throw (Error ''Unable to determine branch name in Vercel environment'')
         | Some vercelBranch \<Rightarrow>
             if vercelBranch = []
             then io_throw (Error ''Unable to determine branch name in Vercel environment'')
             else io_return vercelBranch)
      else
        io_catch
          (io_bind (exec w ''git rev-parse --abbrev-ref HEAD'') (\<lambda>out. io_return (trim out)))
          (\<lambda>error. io_throw (Error ''Unable to determine branch name'')))"

text \<open>The parameters of the completion request, lines 69 to 81.\<close>

definition message_params :: "string \<Rightarrow> string \<Rightarrow> llm_request" where
  "message_params key diff =
     \<lparr>apiKey = key,
      model = ''claude-3-5-sonnet-latest'',
      max_tokens = 1000,
      temperature = 0,
      system_text = SYSTEM_PROMPT,
      system_cache_control = ''ephemeral'',
      user_text =
        ''Generate a pull request message for the following changes between main and feature branches:''
        @ blank_line @ diff\<rparr>"

text \<open>
  \<open>generatePRMessage\<close>, lines 51 to 94. Reading \<open>message.content[0].type\<close> of an
  empty content array, and \<open>title.trim()\<close> of an absent first piece, are type errors.
\<close>

definition generatePRMessage :: "world \<Rightarrow> GeneratedMessage io" where
  "generatePRMessage w =
     (case process_env w ''ANTHROPIC_API_KEY'' of
        None \<Rightarrow> io_throw (Error ''ANTHROPIC_API_KEY environment variable is not set'')
      | Some key \<Rightarrow>
          if key = []
          then io_throw (Error ''ANTHROPIC_API_KEY environment variable is not set'')
          else
            io_bind (exec w ''git diff origin/main'') (\<lambda>diff.
            io_bind (create w (message_params key diff)) (\<lambda>content.
              (case content of
                 [] \<Rightarrow> io_throw TypeError
               | block # _ \<Rightarrow>
                   (let responseText =
                          (case block of TextBlock text \<Rightarrow> text | NonTextBlock _ \<Rightarrow> [])
                    in case split responseText blank_line of
                         [] \<Rightarrow> io_throw TypeError
                       | first # bodyParts \<Rightarrow>
                           io_return
                             \<lparr>title = trim first, body = trim (join bodyParts blank_line)\<rparr>)))))"

text \<open>The request of lines 105 to 118, for a token.\<close>

definition pulls_request ::
  "PullRequestOptions \<Rightarrow> GeneratedMessage \<Rightarrow> string option \<Rightarrow> http_request" where
  "pulls_request options message token =
     \<lparr>url = ''https://api.github.com/repos/'' @ owner options @ ''/'' @ repo options
             @ ''/pulls'',
      http_method = ''POST'',
      headers =
        [(''Accept'', ''application/vnd.github.v3+json''),
         (''Authorization'', ''token '' @ interpolate token),
         (''Content-Type'', ''application/json'')],
      payload =
        JObject
          [(''title'', JString (title message)),
           (''body'', JString (body message)),
           (''head'', JString (head options)),
           (''base'', JString (base options))]\<rparr>"

text \<open>
  \<open>createPR\<close>, lines 99 to 138. Reading \<open>prData.number\<close> is a type error when the
  parsed body is \<open>null\<close>.
\<close>

definition createPR :: "world \<Rightarrow> PullRequestOptions \<Rightarrow> GeneratedMessage \<Rightarrow> json io" where
  "createPR w options message =
     io_bind (getCurrentBranch w) (\<lambda>currentBranch.
       (let token = (if currentBranch = ''raffi''
                     then process_env w ''RAFFI_PAT_TOKEN''
                     else process_env w ''PAT_TOKEN'')
        in io_bind (send w (pulls_request options message token)) (\<lambda>response.
             if \<not> ok response
             then (case response_text response of
                     Inl e \<Rightarrow> io_throw e
                   | Inr errorText \<Rightarrow> io_throw (Error (''Failed to create PR: '' @ errorText)))
             else (case response_json response of
                     Inl e \<Rightarrow> io_throw e
                   | Inr prData \<Rightarrow>
                       (case prData of JNull \<Rightarrow> io_throw TypeError | _ \<Rightarrow> io_return prData)))))"

text \<open>\<open>syncWithMain\<close>, lines 143 to 173.\<close>

definition syncWithMain :: "world \<Rightarrow> unit io" where
  "syncWithMain w =
     io_bind (getCurrentBranch w) (\<lambda>currentBranch.
     io_bind
       (io_catch (exec w (''git push origin '' @ currentBranch))
          (\<lambda>error. io_throw
             (Error (''Please ensure your changes are committed and try again: ''
                     @ error_toString error)))) (\<lambda>_.
     io_bind (exec w ''git fetch origin'') (\<lambda>_.
       io_catch
         (io_bind (exec w ''git rebase origin/main'') (\<lambda>_.
          io_bind (exec w ''git push --force-with-lease'') (\<lambda>_. io_return ())))
         (\<lambda>error.
            io_bind (exec w ''git rebase --abort'') (\<lambda>_.
              io_throw
                (Error ''Please manually rebase your branch on main and resolve conflicts before creating PR''))))))"

text \<open>
  \<open>createPRToMain\<close>, lines 178 to 215. The handler of line 211 logs and rethrows the
  error it caught.
\<close>

definition createPRToMain :: "world \<Rightarrow> unit io" where
  "createPRToMain w =
     io_catch
       (io_bind (exec w ''git status --porcelain'') (\<lambda>status.
        io_bind
          (if status \<noteq> []
           then io_bind (exec w ''git add .'') (\<lambda>_.
                io_bind (exec w (''git commit -m '' @ [CHR 0x22] @ ''sync'' @ [CHR 0x22])) (\<lambda>_.
                io_bind (exec w ''git push --force-with-lease'') (\<lambda>_. io_return ())))
           else io_return ()) (\<lambda>_.
        io_bind (getCurrentBranch w) (\<lambda>currentBranch.
        io_bind (syncWithMain w) (\<lambda>_.
        io_bind (generatePRMessage w) (\<lambda>prMessage.
        io_bind (createPR w
            \<lparr>owner = ''modern-realty-inc'', repo = ''plug-chat'',
             head = currentBranch, base = ''main''\<rparr> prMessage) (\<lambda>_. io_return ())))))))
       (\<lambda>error. io_throw error)"

text \<open>
  The request of lines 226 to 238, for a token. \<open>options.labels || []\<close> is the
  empty array when no labels are given.
\<close>

definition issues_request :: "GitHubIssueOptions \<Rightarrow> string option \<Rightarrow> http_request" where
  "issues_request options token =
     \<lparr>url = ''https://api.github.com/repos/'' @ issue_owner options @ ''/''
             @ issue_repo options @ ''/issues'',
      http_method = ''POST'',
      headers =
        [(''Accept'', ''application/vnd.github.v3+json''),
         (''Authorization'', ''token '' @ interpolate token),
         (''Content-Type'', ''application/json'')],
      payload =
        JObject
          [(''title'', JString (issue_title options)),
           (''body'', JString (issue_body options)),
           (''labels'',
            JArray (map JString (case labels options of None \<Rightarrow> [] | Some ls \<Rightarrow> ls)))]\<rparr>"

text \<open>\<open>createGitHubIssue\<close>, lines 220 to 257.\<close>

definition createGitHubIssue :: "world \<Rightarrow> GitHubIssueOptions \<Rightarrow> unit io" where
  "createGitHubIssue w options =
     io_bind (getCurrentBranch w) (\<lambda>currentBranch.
       (let token = (if currentBranch = ''raffi''
                     then process_env w ''RAFFI_PAT_TOKEN''
                     else process_env w ''PAT_TOKEN'')
        in io_bind (send w (issues_request options token)) (\<lambda>response.
             if \<not> ok response
             then (case response_text response of
                     Inl e \<Rightarrow> io_throw e
                   | Inr errorText \<Rightarrow>
                       io_throw (Error (''Failed to create issue: '' @ errorText)))
             else (case response_json response of
                     Inl e \<Rightarrow> io_throw e
                   | Inr issueData \<Rightarrow>
                       (case issueData of JNull \<Rightarrow> io_throw TypeError | _ \<Rightarrow> io_return ())))))"

text \<open>The \<open>Authorization\<close> headers of the hosting-API requests among some effects.\<close>

fun authorizations :: "action list \<Rightarrow> string list" where
  "authorizations [] = []"
| "authorizations (Request r # as) =
     (case map_of (headers r) ''Authorization'' of
        None \<Rightarrow> authorizations as
      | Some v \<Rightarrow> v # authorizations as)"
| "authorizations (a # as) = authorizations as"

section \<open>Concrete environments\<close>

text \<open>
  Environments for evaluating the functions on concrete inputs: fixed environment
  variables, a table of command outcomes (a command not in the table succeeds with empty
  output), one reply of the language model and one response of the hosting API.
\<close>

definition scripted_world ::
  "(string \<times> string) list \<Rightarrow> (string \<times> (js_error + string)) list \<Rightarrow>
   (js_error + content_block list) \<Rightarrow> (js_error + http_response) \<Rightarrow> world" where
  "scripted_world vars outcomes reply response =
     \<lparr>process_env = map_of vars,
      execSync = (\<lambda>t cmd. case map_of outcomes cmd of None \<Rightarrow> Inr [] | Some r \<Rightarrow> r),
      messages_create = (\<lambda>t request. reply),
      fetch = (\<lambda>t request. response)\<rparr>"

text \<open>An environment with the API credential set and a diff to summarise.\<close>

definition summarizer_world :: "content_block list \<Rightarrow> world" where
  "summarizer_world content =
     scripted_world [(''ANTHROPIC_API_KEY'', ''sk-test'')]
       [(''git diff origin/main'', Inr ''+hello'')] (Inr content) (Inl (Thrown ''offline''))"

text \<open>An environment without the API credential.\<close>

definition no_credential_world :: world where
  "no_credential_world =
     scripted_world [] [(''git diff origin/main'', Inr ''+hello'')]
       (Inr [TextBlock ''Add login flow'']) (Inl (Thrown ''offline''))"

text \<open>An environment for branch resolution: variables and the outcome of the branch query.\<close>

definition branch_world :: "(string \<times> string) list \<Rightarrow> (js_error + string) \<Rightarrow> world" where
  "branch_world vars query =
     scripted_world vars [(''git rev-parse --abbrev-ref HEAD'', query)]
       (Inr []) (Inl (Thrown ''offline''))"

text \<open>
  An environment for the hosting client: both tokens set, the repository on a given branch,
  and the response of the hosting API. Then sample responses and requests.
\<close>

definition hosting_world :: "string \<Rightarrow> http_response \<Rightarrow> world" where
  "hosting_world branch response =
     scripted_world
       [(''PAT_TOKEN'', ''default-secret''), (''RAFFI_PAT_TOKEN'', ''raffi-secret'')]
       [(''git rev-parse --abbrev-ref HEAD'', Inr (branch @ [CHR 0x0A]))]
       (Inr []) (Inr response)"

definition created :: http_response where
  "created = \<lparr>status = 201, response_text = Inr ''{}'', response_json = Inr (JObject [(''number'', JNumber 7)])\<rparr>"

definition validation_failed :: http_response where
  "validation_failed =
     \<lparr>status = 422, response_text = Inr ''Validation Failed'',
      response_json = Inl (Thrown ''SyntaxError'')\<rparr>"

definition feature_request :: PullRequestOptions where
  "feature_request =
     \<lparr>owner = ''modern-realty-inc'', repo = ''plug-chat'', head = ''feature-x'', base = ''main''\<rparr>"

definition login_message :: GeneratedMessage where
  "login_message = \<lparr>title = ''Add login flow'', body = ''This PR adds OAuth login.''\<rparr>"

definition bug_report :: GitHubIssueOptions where
  "bug_report =
     \<lparr>issue_owner = ''your-org'', issue_repo = ''your-repo'', issue_title = ''Bug Report'',
      issue_body = ''Detailed issue description'', labels = Some [''bug'']\<rparr>"

text \<open>
  An environment for the sync sequence: the repository on branch \<open>feature-x\<close> and a
  table of command outcomes. Then tables for a rejected first push, for a rebase that is
  refused before it starts, and for a force-push rejected after a completed rebase; in the
  last two no rebase is in progress, and the abort command fails as well.
\<close>

definition sync_world :: "(string \<times> (js_error + string)) list \<Rightarrow> world" where
  "sync_world outcomes =
     scripted_world []
       ((''git rev-parse --abbrev-ref HEAD'', Inr (''feature-x'' @ [CHR 0x0A])) # outcomes)
       (Inr []) (Inl (Thrown ''offline''))"

definition rejected_push :: "(string \<times> (js_error + string)) list" where
  "rejected_push =
     [(''git push origin feature-x'', Inl (Thrown ''Error: Command failed: git push origin feature-x''))]"

definition unstarted_rebase :: "(string \<times> (js_error + string)) list" where
  "unstarted_rebase =
     [(''git rebase origin/main'', Inl (Thrown ''error: cannot rebase: You have unstaged changes.'')),
      (''git rebase --abort'', Inl (Thrown ''fatal: No rebase in progress?''))]"

definition stale_lease_no_rebase :: "(string \<times> (js_error + string)) list" where
  "stale_lease_no_rebase =
     [(''git push --force-with-lease'', Inl (Thrown ''Error: Command failed: git push --force-with-lease'')),
      (''git rebase --abort'', Inl (Thrown ''fatal: No rebase in progress?''))]"

section \<open>Splitting, joining and trimming\<close>

lemma split_from_not_Nil: "split_from sep acc s \<noteq> []"
  by (induction sep acc s rule: split_from.induct) auto

lemma split_from_no_match:
  "\<forall>i<length s. \<not> prefix sep (drop i s) \<Longrightarrow> split_from sep acc s = [rev acc @ s]"
proof (induction s arbitrary: acc)
  case Nil
  then show ?case by simp
next
  case (Cons c cs)
  from Cons.prems have here: "\<not> prefix sep (c # cs)"
    by (metis drop0 length_greater_0_conv list.distinct(1))
  have later: "\<forall>i<length cs. \<not> prefix sep (drop i cs)"
  proof (intro allI impI)
    fix i assume "i < length cs"
    then have "Suc i < length (c # cs)" by simp
    with Cons.prems have "\<not> prefix sep (drop (Suc i) (c # cs))" by blast
    then show "\<not> prefix sep (drop i cs)" by simp
  qed
  show ?case using here Cons.IH [OF later, of "c # acc"] by simp
qed

lemma split_from_first_match:
  "sep \<noteq> [] \<Longrightarrow> \<forall>i<length pre. \<not> prefix sep (drop i (pre @ sep @ post)) \<Longrightarrow>
   split_from sep acc (pre @ sep @ post) = (rev acc @ pre) # split_from sep [] post"
proof (induction pre arbitrary: acc)
  case Nil
  then obtain c cs where sep: "sep = c # cs" by (cases sep) auto
  show ?case by (simp add: sep)
next
  case (Cons p ps)
  from Cons.prems(2) have here: "\<not> prefix sep ((p # ps) @ sep @ post)"
    by (metis drop0 length_greater_0_conv list.distinct(1))
  have later: "\<forall>i<length ps. \<not> prefix sep (drop i (ps @ sep @ post))"
  proof (intro allI impI)
    fix i assume "i < length ps"
    then have "Suc i < length (p # ps)" by simp
    with Cons.prems(2) have "\<not> prefix sep (drop (Suc i) ((p # ps) @ sep @ post))" by blast
    then show "\<not> prefix sep (drop i (ps @ sep @ post))" by simp
  qed
  show ?case using here Cons.IH [OF Cons.prems(1) later, of "p # acc"] by simp
qed

lemma join_Cons: "ps \<noteq> [] \<Longrightarrow> join (p # ps) sep = p @ sep @ join ps sep"
  by (cases ps) auto

lemma join_split_from: "join (split_from sep acc s) sep = rev acc @ s"
proof (induction sep acc s rule: split_from.induct)
  case (1 sep acc)
  then show ?case by simp
next
  case (2 sep acc c cs)
  show ?case
  proof (cases "sep \<noteq> [] \<and> prefix sep (c # cs)")
    case True
    then have eq: "c # cs = sep @ drop (length sep) (c # cs)"
      by (metis append_eq_conv_conj prefixE)
    from True 2(1) have "join (split_from sep [] (drop (length sep) (c # cs))) sep
        = drop (length sep) (c # cs)"
      by simp
    with True eq show ?thesis
      by (simp add: join_Cons split_from_not_Nil del: drop_Suc_Cons)
  next
    case False
    with 2(2) show ?thesis by auto
  qed
qed

lemma split_no_blank_line:
  "\<forall>i<length s. \<not> prefix blank_line (drop i s) \<Longrightarrow> split s blank_line = [s]"
  by (simp add: split_def blank_line_def split_from_no_match)

lemma split_first_blank_line:
  "\<forall>i<length pre. \<not> prefix blank_line (drop i (pre @ blank_line @ post)) \<Longrightarrow>
   split (pre @ blank_line @ post) blank_line = pre # split post blank_line"
  using split_from_first_match [of blank_line pre post "[]"]
  by (simp add: split_def blank_line_def)

lemma join_split: "sep \<noteq> [] \<Longrightarrow> join (split s sep) sep = s"
  by (simp add: split_def join_split_from)

lemma trim_Nil_iff: "trim s = [] \<longleftrightarrow> (\<forall>c\<in>set s. isWhiteSpace c)"
proof
  assume "trim s = []"
  then have all: "\<forall>c\<in>set (dropWhile isWhiteSpace s). isWhiteSpace c"
    by (simp add: trim_def dropWhile_eq_Nil_conv)
  have "dropWhile isWhiteSpace s = []"
  proof (rule ccontr)
    assume ne: "dropWhile isWhiteSpace s \<noteq> []"
    then have "\<not> isWhiteSpace (hd (dropWhile isWhiteSpace s))"
      by (rule hd_dropWhile)
    moreover from ne have "hd (dropWhile isWhiteSpace s) \<in> set (dropWhile isWhiteSpace s)"
      by simp
    ultimately show False using all by blast
  qed
  then show "\<forall>c\<in>set s. isWhiteSpace c"
    by (simp add: dropWhile_eq_Nil_conv)
next
  assume "\<forall>c\<in>set s. isWhiteSpace c"
  then have "dropWhile isWhiteSpace s = []"
    by (simp add: dropWhile_eq_Nil_conv)
  then show "trim s = []"
    unfolding trim_def by (simp only: rev.simps dropWhile.simps)
qed

section \<open>The diff summarizer\<close>

lemma generatePRMessage_reply:
  assumes "process_env w ''ANTHROPIC_API_KEY'' = Some key" and "key \<noteq> []"
    and "execSync w t ''git diff origin/main'' = Inr diff"
    and "messages_create w (t @ [Command ''git diff origin/main'']) (message_params key diff)
         = Inr (block # blocks)"
    and "split (case block of TextBlock text \<Rightarrow> text | NonTextBlock x \<Rightarrow> []) blank_line
         = first # bodyParts"
  shows "generatePRMessage w t =
         (Inr \<lparr>title = trim first, body = trim (join bodyParts blank_line)\<rparr>,
          t @ [Command ''git diff origin/main'', Completion (message_params key diff)])"
  using assms
  by (simp add: generatePRMessage_def io_bind_def exec_def create_def io_return_def)

lemmas io_defs = io_bind_def io_catch_def io_return_def io_throw_def exec_def create_def send_def

lemma summarizer_world_simps:
  "process_env (summarizer_world content) ''ANTHROPIC_API_KEY'' = Some ''sk-test''"
  "execSync (summarizer_world content) t ''git diff origin/main'' = Inr ''+hello''"
  "messages_create (summarizer_world content) t r = Inr content"
  by (simp_all add: summarizer_world_def scripted_world_def)

text \<open>
  Claim C1. When the response text has a double line feed, the title is the text before
  the first one, trimmed, and the body is the text after it (the remaining pieces joined
  again), trimmed. When it has none, the title is the whole text, trimmed, the body is
  empty, and the function returns normally.
\<close>

theorem title_body_split_at_first_blank_line:
  assumes "process_env w ''ANTHROPIC_API_KEY'' = Some key" and "key \<noteq> []"
    and "execSync w t ''git diff origin/main'' = Inr diff"
    and "messages_create w (t @ [Command ''git diff origin/main'']) (message_params key diff)
         = Inr (TextBlock responseText # blocks)"
  shows "(\<forall>pre post.
            responseText = pre @ blank_line @ post \<and>
            (\<forall>i<length pre. \<not> prefix blank_line (drop i responseText)) \<longrightarrow>
            fst (generatePRMessage w t) = Inr \<lparr>title = trim pre, body = trim post\<rparr>)
       \<and> ((\<forall>i<length responseText. \<not> prefix blank_line (drop i responseText)) \<longrightarrow>
            fst (generatePRMessage w t) = Inr \<lparr>title = trim responseText, body = []\<rparr>)"
proof (intro conjI allI impI)
  fix pre post
  assume h: "responseText = pre @ blank_line @ post \<and>
             (\<forall>i<length pre. \<not> prefix blank_line (drop i responseText))"
  then have eq: "responseText = pre @ blank_line @ post"
    by (rule conjunct1)
  from h have "\<forall>i<length pre. \<not> prefix blank_line (drop i responseText)"
    by (rule conjunct2)
  then have "\<forall>i<length pre. \<not> prefix blank_line (drop i (pre @ blank_line @ post))"
    unfolding eq .
  then have sp: "split responseText blank_line = pre # split post blank_line"
    unfolding eq by (rule split_first_blank_line)
  have "join (split post blank_line) blank_line = post"
    by (rule join_split) (simp add: blank_line_def)
  with generatePRMessage_reply [OF assms, of pre "split post blank_line"] sp
  show "fst (generatePRMessage w t) = Inr \<lparr>title = trim pre, body = trim post\<rparr>"
    by simp
next
  assume "\<forall>i<length responseText. \<not> prefix blank_line (drop i responseText)"
  then have sp: "split responseText blank_line = [responseText]"
    by (rule split_no_blank_line)
  have "trim [] = []" by (simp add: trim_def)
  with generatePRMessage_reply [OF assms, of responseText "[]"] sp
  show "fst (generatePRMessage w t) = Inr \<lparr>title = trim responseText, body = []\<rparr>"
    by simp
qed

theorem title_body_split_at_first_blank_line_witness:
  "fst (generatePRMessage
          (summarizer_world [TextBlock (''Add login flow'' @ blank_line @ ''This PR adds OAuth login.'')]) [])
     = Inr \<lparr>title = ''Add login flow'', body = ''This PR adds OAuth login.''\<rparr>
   \<and> fst (generatePRMessage (summarizer_world [TextBlock '' Fix typo in README'']) [])
     = Inr \<lparr>title = ''Fix typo in README'', body = []\<rparr>"
proof
  let ?text = "''Add login flow'' @ blank_line @ ''This PR adds OAuth login.''"
  have first: "\<forall>i<length ''Add login flow''. \<not> prefix blank_line (drop i ?text)"
    by (simp add: blank_line_def All_less_Suc)
  have tr: "trim ''Add login flow'' = ''Add login flow''"
       "trim ''This PR adds OAuth login.'' = ''This PR adds OAuth login.''"
    by (simp_all add: trim_def isWhiteSpace_def)
  from title_body_split_at_first_blank_line
         [of "summarizer_world [TextBlock ?text]" "''sk-test''" "[]" "''+hello''" ?text "[]"]
  have "?text = ''Add login flow'' @ blank_line @ ''This PR adds OAuth login.'' \<and>
        (\<forall>i<length ''Add login flow''. \<not> prefix blank_line (drop i ?text)) \<longrightarrow>
        fst (generatePRMessage (summarizer_world [TextBlock ?text]) [])
          = Inr \<lparr>title = trim ''Add login flow'', body = trim ''This PR adds OAuth login.''\<rparr>"
    by (simp only: summarizer_world_simps) blast
  with first tr
  show "fst (generatePRMessage (summarizer_world [TextBlock ?text]) [])
          = Inr \<lparr>title = ''Add login flow'', body = ''This PR adds OAuth login.''\<rparr>"
    by simp
next
  let ?text = "'' Fix typo in README''"
  have none: "\<forall>i<length ?text. \<not> prefix blank_line (drop i ?text)"
    by (simp add: blank_line_def All_less_Suc)
  have tr: "trim ?text = ''Fix typo in README''"
    by (simp add: trim_def isWhiteSpace_def)
  from title_body_split_at_first_blank_line
         [of "summarizer_world [TextBlock ?text]" "''sk-test''" "[]" "''+hello''" ?text "[]"]
  have "(\<forall>i<length ?text. \<not> prefix blank_line (drop i ?text)) \<longrightarrow>
        fst (generatePRMessage (summarizer_world [TextBlock ?text]) [])
          = Inr \<lparr>title = trim ?text, body = []\<rparr>"
    by (simp only: summarizer_world_simps) blast
  with none tr
  show "fst (generatePRMessage (summarizer_world [TextBlock ?text]) [])
          = Inr \<lparr>title = ''Fix typo in README'', body = []\<rparr>"
    by simp
qed

text \<open>
  Claim C4 says the title is never empty. A response that starts with a blank line gives
  an empty title.
\<close>

theorem empty_title_counterexample:
  "fst (generatePRMessage (summarizer_world [TextBlock (blank_line @ ''Adds a login flow.'')]) [])
     = Inr \<lparr>title = [], body = ''Adds a login flow.''\<rparr>"
  by (simp add: generatePRMessage_def io_defs summarizer_world_simps split_def blank_line_def
      trim_def isWhiteSpace_def)

text \<open>
  Claim C4, amended. The title is the trimmed text before the first double line feed (the
  whole text when there is none); it is non-empty exactly when that text has a character
  that is not white space.
\<close>

theorem title_nonempty_iff:
  assumes "process_env w ''ANTHROPIC_API_KEY'' = Some key" and "key \<noteq> []"
    and "execSync w t ''git diff origin/main'' = Inr diff"
    and "messages_create w (t @ [Command ''git diff origin/main'']) (message_params key diff)
         = Inr (TextBlock responseText # blocks)"
    and "responseText = pre @ rest"
    and "rest = [] \<or> prefix blank_line rest"
    and "\<forall>i<length pre. \<not> prefix blank_line (drop i responseText)"
  shows "\<exists>m. fst (generatePRMessage w t) = Inr m \<and> title m = trim pre \<and>
             (title m \<noteq> [] \<longleftrightarrow> (\<exists>c\<in>set pre. \<not> isWhiteSpace c))"
proof -
  have "\<exists>bodyParts. split responseText blank_line = pre # bodyParts"
  proof (cases "rest = []")
    case True
    with assms(5,7) have "split responseText blank_line = [responseText]"
      by (simp add: split_no_blank_line)
    with True assms(5) show ?thesis by simp
  next
    case False
    with assms(6) obtain post where rest: "rest = blank_line @ post"
      by (auto elim: prefixE)
    from assms(7) have "\<forall>i<length pre. \<not> prefix blank_line (drop i (pre @ blank_line @ post))"
      unfolding assms(5) rest .
    then have "split (pre @ blank_line @ post) blank_line = pre # split post blank_line"
      by (rule split_first_blank_line)
    then show ?thesis unfolding assms(5) rest by blast
  qed
  then obtain bodyParts where sp: "split responseText blank_line = pre # bodyParts" ..
  have "fst (generatePRMessage w t)
          = Inr \<lparr>title = trim pre, body = trim (join bodyParts blank_line)\<rparr>"
    using generatePRMessage_reply [OF assms(1-4), of pre bodyParts] sp by simp
  then show ?thesis
    by (simp add: trim_Nil_iff)
qed

theorem title_nonempty_iff_witness:
  "\<exists>m. fst (generatePRMessage
               (summarizer_world [TextBlock (''Add login flow'' @ blank_line @ ''Details.'')]) [])
             = Inr m \<and> title m = ''Add login flow'' \<and> title m \<noteq> []"
proof -
  let ?text = "''Add login flow'' @ blank_line @ ''Details.''"
  have first: "\<forall>i<length ''Add login flow''. \<not> prefix blank_line (drop i ?text)"
    by (simp add: blank_line_def All_less_Suc)
  have tr: "trim ''Add login flow'' = ''Add login flow''"
    by (simp add: trim_def isWhiteSpace_def)
  have "prefix blank_line (blank_line @ ''Details.'')"
    by simp
  then have rest: "blank_line @ ''Details.'' = [] \<or> prefix blank_line (blank_line @ ''Details.'')"
    by (rule disjI2)
  let ?w = "summarizer_world [TextBlock ?text]"
  have k: "process_env ?w ''ANTHROPIC_API_KEY'' = Some ''sk-test''"
    by (rule summarizer_world_simps)
  have ne: "''sk-test'' \<noteq> []"
    by simp
  have d: "execSync ?w [] ''git diff origin/main'' = Inr ''+hello''"
    by (rule summarizer_world_simps)
  have m: "messages_create ?w ([] @ [Command ''git diff origin/main''])
             (message_params ''sk-test'' ''+hello'') = Inr [TextBlock ?text]"
    by (rule summarizer_world_simps)
  have eq: "?text = ''Add login flow'' @ (blank_line @ ''Details.'')"
    by (rule refl)
  from title_nonempty_iff [OF k ne d m eq rest first]
  show ?thesis
    by (simp add: tr isWhiteSpace_def)
qed

text \<open>
  Claim C5 says a first content block that is not text makes the summarizer fail. Line 84
  takes the empty string for such a block, and a message with empty title and body is
  returned.
\<close>

theorem non_text_block_counterexample:
  "fst (generatePRMessage (summarizer_world [NonTextBlock ''tool_use'']) [])
     = Inr \<lparr>title = [], body = []\<rparr>"
  by (simp add: generatePRMessage_def io_defs summarizer_world_simps split_def blank_line_def
      trim_def)

text \<open>
  Claim C5, amended. When the API credential is unset or empty, the error is raised with
  no command run and no request made. When the first content block is not a text block,
  the response text is taken to be empty and a message with empty title and body is
  returned.
\<close>

theorem missing_credential_and_non_text_block:
  "(\<not> truthy (process_env w ''ANTHROPIC_API_KEY'') \<longrightarrow>
      generatePRMessage w t
        = (Inl (Error ''ANTHROPIC_API_KEY environment variable is not set''), t))
   \<and> (\<forall>key diff kind blocks.
        process_env w ''ANTHROPIC_API_KEY'' = Some key \<and> key \<noteq> [] \<and>
        execSync w t ''git diff origin/main'' = Inr diff \<and>
        messages_create w (t @ [Command ''git diff origin/main'']) (message_params key diff)
          = Inr (NonTextBlock kind # blocks) \<longrightarrow>
        generatePRMessage w t
          = (Inr \<lparr>title = [], body = []\<rparr>,
             t @ [Command ''git diff origin/main'', Completion (message_params key diff)]))"
proof (intro conjI allI impI)
  assume "\<not> truthy (process_env w ''ANTHROPIC_API_KEY'')"
  then show "generatePRMessage w t
        = (Inl (Error ''ANTHROPIC_API_KEY environment variable is not set''), t)"
    by (simp add: generatePRMessage_def truthy_def io_throw_def split: option.splits)
next
  fix key diff kind blocks
  assume h: "process_env w ''ANTHROPIC_API_KEY'' = Some key \<and> key \<noteq> [] \<and>
        execSync w t ''git diff origin/main'' = Inr diff \<and>
        messages_create w (t @ [Command ''git diff origin/main'']) (message_params key diff)
          = Inr (NonTextBlock kind # blocks)"
  have sp: "split (case NonTextBlock kind of TextBlock text \<Rightarrow> text | NonTextBlock x \<Rightarrow> [])
              blank_line = [[]]"
    by (simp add: split_def blank_line_def)
  have "trim [] = []" by (simp add: trim_def)
  with h generatePRMessage_reply [of w key t diff "NonTextBlock kind" blocks "[]" "[]", OF _ _ _ _ sp]
  show "generatePRMessage w t
          = (Inr \<lparr>title = [], body = []\<rparr>,
             t @ [Command ''git diff origin/main'', Completion (message_params key diff)])"
    by simp
qed

theorem missing_credential_and_non_text_block_witness:
  "generatePRMessage no_credential_world []
     = (Inl (Error ''ANTHROPIC_API_KEY environment variable is not set''), [])
   \<and> generatePRMessage (summarizer_world [NonTextBlock ''tool_use'']) []
     = (Inr \<lparr>title = [], body = []\<rparr>,
        [Command ''git diff origin/main'', Completion (message_params ''sk-test'' ''+hello'')])"
proof
  have "\<not> truthy (process_env no_credential_world ''ANTHROPIC_API_KEY'')"
    by (simp add: no_credential_world_def scripted_world_def truthy_def)
  with missing_credential_and_non_text_block [of no_credential_world "[]"]
  show "generatePRMessage no_credential_world []
     = (Inl (Error ''ANTHROPIC_API_KEY environment variable is not set''), [])"
    by blast
next
  let ?w = "summarizer_world [NonTextBlock ''tool_use'']"
  have "process_env ?w ''ANTHROPIC_API_KEY'' = Some ''sk-test'' \<and> ''sk-test'' \<noteq> [] \<and>
        execSync ?w [] ''git diff origin/main'' = Inr ''+hello'' \<and>
        messages_create ?w ([] @ [Command ''git diff origin/main''])
          (message_params ''sk-test'' ''+hello'') = Inr (NonTextBlock ''tool_use'' # [])"
    by (simp add: summarizer_world_simps)
  with missing_credential_and_non_text_block [of ?w "[]"]
  have "generatePRMessage ?w []
          = (Inr \<lparr>title = [], body = []\<rparr>,
             [] @ [Command ''git diff origin/main'', Completion (message_params ''sk-test'' ''+hello'')])"
    by blast
  then show "generatePRMessage ?w []
     = (Inr \<lparr>title = [], body = []\<rparr>,
        [Command ''git diff origin/main'', Completion (message_params ''sk-test'' ''+hello'')])"
    by simp
qed

section \<open>Branch resolution\<close>

text \<open>
  Claim C7. The deployment marker counts as present when \<open>VERCEL\<close> is set to a
  non-empty string, and a value as absent when it is unset or empty (the truthiness tests
  of lines 30 and 33). With the marker present the result is the value of
  \<open>VERCEL_GIT_COMMIT_REF\<close>, whatever the repository says and without asking it, and an
  error when that value is absent. With the marker absent the result is the trimmed output
  of the branch query, and an error when the query fails.
\<close>

theorem getCurrentBranch_policy:
  "(truthy (process_env w ''VERCEL'') \<longrightarrow>
      (\<forall>vercelBranch.
         process_env w ''VERCEL_GIT_COMMIT_REF'' = Some vercelBranch \<and> vercelBranch \<noteq> [] \<longrightarrow>
         getCurrentBranch w t = (Inr vercelBranch, t)) \<and>
      (\<not> truthy (process_env w ''VERCEL_GIT_COMMIT_REF'') \<longrightarrow>
         getCurrentBranch w t
           = (Inl (Error ''Unable to determine branch name in Vercel environment''), t)))
   \<and> (\<not> truthy (process_env w ''VERCEL'') \<longrightarrow>
      (\<forall>out. execSync w t ''git rev-parse --abbrev-ref HEAD'' = Inr out \<longrightarrow>
         getCurrentBranch w t
           = (Inr (trim out), t @ [Command ''git rev-parse --abbrev-ref HEAD''])) \<and>
      (\<forall>e. execSync w t ''git rev-parse --abbrev-ref HEAD'' = Inl e \<longrightarrow>
         getCurrentBranch w t
           = (Inl (Error ''Unable to determine branch name''),
              t @ [Command ''git rev-parse --abbrev-ref HEAD''])))"
  by (auto simp add: getCurrentBranch_def truthy_def io_defs split: option.splits)

theorem getCurrentBranch_policy_witness:
  "getCurrentBranch
     (branch_world [(''VERCEL'', ''1''), (''VERCEL_GIT_COMMIT_REF'', ''preview'')]
        (Inr (''feature-x'' @ [CHR 0x0A]))) []
     = (Inr ''preview'', [])
   \<and> getCurrentBranch (branch_world [(''VERCEL'', ''1'')] (Inr (''feature-x'' @ [CHR 0x0A]))) []
     = (Inl (Error ''Unable to determine branch name in Vercel environment''), [])
   \<and> getCurrentBranch (branch_world [] (Inr (''feature-x'' @ [CHR 0x0A]))) []
     = (Inr ''feature-x'', [Command ''git rev-parse --abbrev-ref HEAD''])
   \<and> getCurrentBranch (branch_world [] (Inl (Thrown ''fatal: not a git repository''))) []
     = (Inl (Error ''Unable to determine branch name''),
        [Command ''git rev-parse --abbrev-ref HEAD''])"
proof (intro conjI)
  let ?w = "branch_world [(''VERCEL'', ''1''), (''VERCEL_GIT_COMMIT_REF'', ''preview'')]
              (Inr (''feature-x'' @ [CHR 0x0A]))"
  have "truthy (process_env ?w ''VERCEL'')"
    and "process_env ?w ''VERCEL_GIT_COMMIT_REF'' = Some ''preview'' \<and> ''preview'' \<noteq> []"
    by (simp_all add: branch_world_def scripted_world_def truthy_def)
  with getCurrentBranch_policy [of ?w "[]"]
  show "getCurrentBranch ?w [] = (Inr ''preview'', [])"
    by blast
next
  let ?w = "branch_world [(''VERCEL'', ''1'')] (Inr (''feature-x'' @ [CHR 0x0A]))"
  have "truthy (process_env ?w ''VERCEL'')"
    and "\<not> truthy (process_env ?w ''VERCEL_GIT_COMMIT_REF'')"
    by (simp_all add: branch_world_def scripted_world_def truthy_def)
  with getCurrentBranch_policy [of ?w "[]"]
  show "getCurrentBranch ?w []
          = (Inl (Error ''Unable to determine branch name in Vercel environment''), [])"
    by blast
next
  let ?w = "branch_world [] (Inr (''feature-x'' @ [CHR 0x0A]))"
  have "\<not> truthy (process_env ?w ''VERCEL'')"
    and "execSync ?w [] ''git rev-parse --abbrev-ref HEAD'' = Inr (''feature-x'' @ [CHR 0x0A])"
    by (simp_all add: branch_world_def scripted_world_def truthy_def)
  with getCurrentBranch_policy [of ?w "[]"]
  have "getCurrentBranch ?w []
          = (Inr (trim (''feature-x'' @ [CHR 0x0A])), [] @ [Command ''git rev-parse --abbrev-ref HEAD''])"
    by blast
  then show "getCurrentBranch ?w []
          = (Inr ''feature-x'', [Command ''git rev-parse --abbrev-ref HEAD''])"
    by (simp add: trim_def isWhiteSpace_def)
next
  let ?w = "branch_world [] (Inl (Thrown ''fatal: not a git repository''))"
  have "\<not> truthy (process_env ?w ''VERCEL'')"
    and "execSync ?w [] ''git rev-parse --abbrev-ref HEAD''
           = Inl (Thrown ''fatal: not a git repository'')"
    by (simp_all add: branch_world_def scripted_world_def truthy_def)
  with getCurrentBranch_policy [of ?w "[]"]
  have "getCurrentBranch ?w []
          = (Inl (Error ''Unable to determine branch name''),
             [] @ [Command ''git rev-parse --abbrev-ref HEAD''])"
    by blast
  then show "getCurrentBranch ?w []
          = (Inl (Error ''Unable to determine branch name''),
             [Command ''git rev-parse --abbrev-ref HEAD''])"
    by simp
qed

section \<open>The hosting client\<close>

lemma createPR_run:
  assumes "getCurrentBranch w t = (Inr currentBranch, t1)"
  shows "createPR w options message t =
         io_bind (send w (pulls_request options message
                    (if currentBranch = ''raffi'' then process_env w ''RAFFI_PAT_TOKEN''
                     else process_env w ''PAT_TOKEN'')))
           (\<lambda>response.
             if \<not> ok response
             then (case response_text response of
                     Inl e \<Rightarrow> io_throw e
                   | Inr errorText \<Rightarrow> io_throw (Error (''Failed to create PR: '' @ errorText)))
             else (case response_json response of
                     Inl e \<Rightarrow> io_throw e
                   | Inr prData \<Rightarrow>
                       (case prData of JNull \<Rightarrow> io_throw TypeError | _ \<Rightarrow> io_return prData)))
           t1"
  unfolding createPR_def Let_def
  by (subst io_bind_def) (simp only: assms prod.case sum.case)

lemma createGitHubIssue_run:
  assumes "getCurrentBranch w t = (Inr currentBranch, t1)"
  shows "createGitHubIssue w options t =
         io_bind (send w (issues_request options
                    (if currentBranch = ''raffi'' then process_env w ''RAFFI_PAT_TOKEN''
                     else process_env w ''PAT_TOKEN'')))
           (\<lambda>response.
             if \<not> ok response
             then (case response_text response of
                     Inl e \<Rightarrow> io_throw e
                   | Inr errorText \<Rightarrow>
                       io_throw (Error (''Failed to create issue: '' @ errorText)))
             else (case response_json response of
                     Inl e \<Rightarrow> io_throw e
                   | Inr issueData \<Rightarrow>
                       (case issueData of JNull \<Rightarrow> io_throw TypeError | _ \<Rightarrow> io_return ())))
           t1"
  unfolding createGitHubIssue_def Let_def
  by (subst io_bind_def) (simp only: assms prod.case sum.case)

lemma snd_bind_send:
  assumes "\<And>response t'. snd (f response t') = t'"
  shows "snd (io_bind (send w request) f t) = t @ [Request request]"
  by (cases "fetch w t request") (simp_all add: io_bind_def send_def assms)

lemma createPR_effects:
  assumes "getCurrentBranch w t = (Inr currentBranch, t1)"
  shows "snd (createPR w options message t)
         = t1 @ [Request (pulls_request options message
                   (if currentBranch = ''raffi'' then process_env w ''RAFFI_PAT_TOKEN''
                    else process_env w ''PAT_TOKEN''))]"
  unfolding createPR_run [OF assms]
  by (rule snd_bind_send) (simp add: io_throw_def io_return_def split: sum.split json.split)

lemma createGitHubIssue_effects:
  assumes "getCurrentBranch w t = (Inr currentBranch, t1)"
  shows "snd (createGitHubIssue w options t)
         = t1 @ [Request (issues_request options
                   (if currentBranch = ''raffi'' then process_env w ''RAFFI_PAT_TOKEN''
                    else process_env w ''PAT_TOKEN''))]"
  unfolding createGitHubIssue_run [OF assms]
  by (rule snd_bind_send) (simp add: io_throw_def io_return_def split: sum.split json.split)

lemma authorizations_append:
  "authorizations (xs @ ys) = authorizations xs @ authorizations ys"
  by (induction xs rule: authorizations.induct) (simp_all split: option.split)

lemma authorization_pulls_request:
  "map_of (headers (pulls_request options message token)) ''Authorization''
   = Some (''token '' @ interpolate token)"
  by (simp add: pulls_request_def)

lemma authorization_issues_request:
  "map_of (headers (issues_request options token)) ''Authorization''
   = Some (''token '' @ interpolate token)"
  by (simp add: issues_request_def)

text \<open>
  Claim C6. The token sent is determined by the resolved branch name alone, for every
  branch name: \<open>raffi\<close> selects \<open>RAFFI_PAT_TOKEN\<close>, any other name selects
  \<open>PAT_TOKEN\<close>; \<open>createPR\<close> and \<open>createGitHubIssue\<close> select it the same way.
\<close>

theorem token_selected_by_branch:
  assumes "getCurrentBranch w t = (Inr currentBranch, t1)"
  shows "(\<exists>request.
            snd (createPR w options message t) = t1 @ [Request request] \<and>
            map_of (headers request) ''Authorization''
              = Some (''token '' @ interpolate
                  (if currentBranch = ''raffi'' then process_env w ''RAFFI_PAT_TOKEN''
                   else process_env w ''PAT_TOKEN'')))
       \<and> (\<exists>request.
            snd (createGitHubIssue w issue t) = t1 @ [Request request] \<and>
            map_of (headers request) ''Authorization''
              = Some (''token '' @ interpolate
                  (if currentBranch = ''raffi'' then process_env w ''RAFFI_PAT_TOKEN''
                   else process_env w ''PAT_TOKEN'')))"
proof
  show "\<exists>request.
            snd (createPR w options message t) = t1 @ [Request request] \<and>
            map_of (headers request) ''Authorization''
              = Some (''token '' @ interpolate
                  (if currentBranch = ''raffi'' then process_env w ''RAFFI_PAT_TOKEN''
                   else process_env w ''PAT_TOKEN''))"
    using createPR_effects [OF assms, of options message] authorization_pulls_request
    by blast
next
  show "\<exists>request.
            snd (createGitHubIssue w issue t) = t1 @ [Request request] \<and>
            map_of (headers request) ''Authorization''
              = Some (''token '' @ interpolate
                  (if currentBranch = ''raffi'' then process_env w ''RAFFI_PAT_TOKEN''
                   else process_env w ''PAT_TOKEN''))"
    using createGitHubIssue_effects [OF assms, of issue] authorization_issues_request
    by blast
qed

text \<open>
  Claim C10. Both functions resolve the branch themselves when they are called, and the
  token follows that branch: the \<open>Authorization\<close> header does not change with the
  \<open>head\<close> field of the request, so it can belong to a branch other than \<open>head\<close>.
\<close>

theorem token_branch_resolved_at_call_time:
  assumes "getCurrentBranch w t = (Inr currentBranch, t1)"
  shows "authorizations (snd (createPR w options message t))
           = authorizations t1 @
             [''token '' @ interpolate
                (if currentBranch = ''raffi'' then process_env w ''RAFFI_PAT_TOKEN''
                 else process_env w ''PAT_TOKEN'')]
       \<and> authorizations (snd (createPR w (options\<lparr>head := h\<rparr>) message t))
           = authorizations (snd (createPR w options message t))
       \<and> authorizations (snd (createGitHubIssue w issue t))
           = authorizations t1 @
             [''token '' @ interpolate
                (if currentBranch = ''raffi'' then process_env w ''RAFFI_PAT_TOKEN''
                 else process_env w ''PAT_TOKEN'')]"
  by (simp add: createPR_effects [OF assms] createGitHubIssue_effects [OF assms]
      authorizations_append authorization_pulls_request authorization_issues_request)

text \<open>
  Claim C8. When the hosting API answers the request of \<open>createPR\<close> or of
  \<open>createGitHubIssue\<close> with a status outside 200..299, the function sends that one
  request and raises an error whose message ends with the response body text, unchanged;
  nothing is returned.
\<close>

theorem non_2xx_raises_error_with_body:
  "(\<forall>currentBranch t1 response errorText.
      getCurrentBranch w t = (Inr currentBranch, t1) \<and>
      fetch w t1
        (pulls_request options message
           (if currentBranch = ''raffi'' then process_env w ''RAFFI_PAT_TOKEN''
            else process_env w ''PAT_TOKEN'')) = Inr response \<and>
      (status response < 200 \<or> 299 < status response) \<and>
      response_text response = Inr errorText \<longrightarrow>
      createPR w options message t
        = (Inl (Error (''Failed to create PR: '' @ errorText)),
           t1 @ [Request (pulls_request options message
                   (if currentBranch = ''raffi'' then process_env w ''RAFFI_PAT_TOKEN''
                    else process_env w ''PAT_TOKEN''))]))
   \<and> (\<forall>currentBranch t1 response errorText.
      getCurrentBranch w t = (Inr currentBranch, t1) \<and>
      fetch w t1
        (issues_request issue
           (if currentBranch = ''raffi'' then process_env w ''RAFFI_PAT_TOKEN''
            else process_env w ''PAT_TOKEN'')) = Inr response \<and>
      (status response < 200 \<or> 299 < status response) \<and>
      response_text response = Inr errorText \<longrightarrow>
      createGitHubIssue w issue t
        = (Inl (Error (''Failed to create issue: '' @ errorText)),
           t1 @ [Request (issues_request issue
                   (if currentBranch = ''raffi'' then process_env w ''RAFFI_PAT_TOKEN''
                    else process_env w ''PAT_TOKEN''))]))"
proof (intro conjI allI impI)
  fix currentBranch t1 response errorText
  let ?request = "pulls_request options message
                    (if currentBranch = ''raffi'' then process_env w ''RAFFI_PAT_TOKEN''
                     else process_env w ''PAT_TOKEN'')"
  assume h: "getCurrentBranch w t = (Inr currentBranch, t1) \<and>
      fetch w t1 ?request = Inr response \<and>
      (status response < 200 \<or> 299 < status response) \<and>
      response_text response = Inr errorText"
  then have b: "getCurrentBranch w t = (Inr currentBranch, t1)" by simp
  from h have "\<not> ok response" by (auto simp add: ok_def)
  with h show "createPR w options message t
        = (Inl (Error (''Failed to create PR: '' @ errorText)), t1 @ [Request ?request])"
    unfolding createPR_run [OF b]
    by (simp add: io_bind_def send_def io_throw_def)
next
  fix currentBranch t1 response errorText
  let ?request = "issues_request issue
                    (if currentBranch = ''raffi'' then process_env w ''RAFFI_PAT_TOKEN''
                     else process_env w ''PAT_TOKEN'')"
  assume h: "getCurrentBranch w t = (Inr currentBranch, t1) \<and>
      fetch w t1 ?request = Inr response \<and>
      (status response < 200 \<or> 299 < status response) \<and>
      response_text response = Inr errorText"
  then have b: "getCurrentBranch w t = (Inr currentBranch, t1)" by simp
  from h have "\<not> ok response" by (auto simp add: ok_def)
  with h show "createGitHubIssue w issue t
        = (Inl (Error (''Failed to create issue: '' @ errorText)), t1 @ [Request ?request])"
    unfolding createGitHubIssue_run [OF b]
    by (simp add: io_bind_def send_def io_throw_def)
qed

lemma hosting_world_simps:
  "process_env (hosting_world branch response) ''VERCEL'' = None"
  "process_env (hosting_world branch response) ''PAT_TOKEN'' = Some ''default-secret''"
  "process_env (hosting_world branch response) ''RAFFI_PAT_TOKEN'' = Some ''raffi-secret''"
  "execSync (hosting_world branch response) t ''git rev-parse --abbrev-ref HEAD''
     = Inr (branch @ [CHR 0x0A])"
  "fetch (hosting_world branch response) t request = Inr response"
  by (simp_all add: hosting_world_def scripted_world_def)

lemma hosting_world_branch:
  "getCurrentBranch (hosting_world ''raffi'' response) []
     = (Inr ''raffi'', [Command ''git rev-parse --abbrev-ref HEAD''])"
  "getCurrentBranch (hosting_world ''feature-x'' response) []
     = (Inr ''feature-x'', [Command ''git rev-parse --abbrev-ref HEAD''])"
  by (simp_all add: getCurrentBranch_def truthy_def io_defs hosting_world_simps trim_def
      isWhiteSpace_def)

theorem token_selected_by_branch_witness:
  "(\<exists>request.
      snd (createPR (hosting_world ''raffi'' created) feature_request login_message [])
        = [Command ''git rev-parse --abbrev-ref HEAD'', Request request] \<and>
      map_of (headers request) ''Authorization'' = Some ''token raffi-secret'')
   \<and> (\<exists>request.
      snd (createGitHubIssue (hosting_world ''raffi'' created) bug_report [])
        = [Command ''git rev-parse --abbrev-ref HEAD'', Request request] \<and>
      map_of (headers request) ''Authorization'' = Some ''token raffi-secret'')
   \<and> (\<exists>request.
      snd (createPR (hosting_world ''feature-x'' created) feature_request login_message [])
        = [Command ''git rev-parse --abbrev-ref HEAD'', Request request] \<and>
      map_of (headers request) ''Authorization'' = Some ''token default-secret'')
   \<and> (\<exists>request.
      snd (createGitHubIssue (hosting_world ''feature-x'' created) bug_report [])
        = [Command ''git rev-parse --abbrev-ref HEAD'', Request request] \<and>
      map_of (headers request) ''Authorization'' = Some ''token default-secret'')"
  using token_selected_by_branch [OF hosting_world_branch(1), of created feature_request login_message bug_report]
    token_selected_by_branch [OF hosting_world_branch(2), of created feature_request login_message bug_report]
  by (simp add: hosting_world_simps interpolate_def)

theorem token_branch_resolved_at_call_time_witness:
  "head feature_request = ''feature-x''
   \<and> authorizations
         (snd (createPR (hosting_world ''raffi'' created) feature_request login_message []))
       = [''token raffi-secret'']
   \<and> authorizations
         (snd (createPR (hosting_world ''raffi'' created)
                (feature_request\<lparr>head := ''raffi''\<rparr>) login_message []))
       = [''token raffi-secret'']
   \<and> authorizations (snd (createGitHubIssue (hosting_world ''raffi'' created) bug_report []))
       = [''token raffi-secret'']"
  using token_branch_resolved_at_call_time
          [OF hosting_world_branch(1), of created feature_request login_message "''raffi''" bug_report]
  by (simp add: hosting_world_simps interpolate_def feature_request_def)

theorem non_2xx_raises_error_with_body_witness:
  "createPR (hosting_world ''feature-x'' validation_failed) feature_request login_message []
     = (Inl (Error ''Failed to create PR: Validation Failed''),
        [Command ''git rev-parse --abbrev-ref HEAD'',
         Request (pulls_request feature_request login_message (Some ''default-secret''))])
   \<and> createGitHubIssue (hosting_world ''feature-x'' validation_failed) bug_report []
     = (Inl (Error ''Failed to create issue: Validation Failed''),
        [Command ''git rev-parse --abbrev-ref HEAD'',
         Request (issues_request bug_report (Some ''default-secret''))])"
proof
  let ?w = "hosting_world ''feature-x'' validation_failed"
  let ?t1 = "[Command ''git rev-parse --abbrev-ref HEAD'']"
  let ?token = "if ''feature-x'' = ''raffi'' then process_env ?w ''RAFFI_PAT_TOKEN''
                else process_env ?w ''PAT_TOKEN''"
  have "getCurrentBranch ?w [] = (Inr ''feature-x'', ?t1) \<and>
        fetch ?w ?t1 (pulls_request feature_request login_message ?token)
          = Inr validation_failed \<and>
        (status validation_failed < 200 \<or> 299 < status validation_failed) \<and>
        response_text validation_failed = Inr ''Validation Failed''"
    by (simp add: hosting_world_branch hosting_world_simps validation_failed_def)
  with non_2xx_raises_error_with_body [of ?w "[]" feature_request login_message bug_report]
  have "createPR ?w feature_request login_message []
          = (Inl (Error (''Failed to create PR: '' @ ''Validation Failed'')),
             ?t1 @ [Request (pulls_request feature_request login_message ?token)])"
    by blast
  then show "createPR ?w feature_request login_message []
     = (Inl (Error ''Failed to create PR: Validation Failed''),
        [Command ''git rev-parse --abbrev-ref HEAD'',
         Request (pulls_request feature_request login_message (Some ''default-secret''))])"
    by (simp add: hosting_world_simps)
next
  let ?w = "hosting_world ''feature-x'' validation_failed"
  let ?t1 = "[Command ''git rev-parse --abbrev-ref HEAD'']"
  let ?token = "if ''feature-x'' = ''raffi'' then process_env ?w ''RAFFI_PAT_TOKEN''
                else process_env ?w ''PAT_TOKEN''"
  have "getCurrentBranch ?w [] = (Inr ''feature-x'', ?t1) \<and>
        fetch ?w ?t1 (issues_request bug_report ?token) = Inr validation_failed \<and>
        (status validation_failed < 200 \<or> 299 < status validation_failed) \<and>
        response_text validation_failed = Inr ''Validation Failed''"
    by (simp add: hosting_world_branch hosting_world_simps validation_failed_def)
  with non_2xx_raises_error_with_body [of ?w "[]" feature_request login_message bug_report]
  have "createGitHubIssue ?w bug_report []
          = (Inl (Error (''Failed to create issue: '' @ ''Validation Failed'')),
             ?t1 @ [Request (issues_request bug_report ?token)])"
    by blast
  then show "createGitHubIssue ?w bug_report []
     = (Inl (Error ''Failed to create issue: Validation Failed''),
        [Command ''git rev-parse --abbrev-ref HEAD'',
         Request (issues_request bug_report (Some ''default-secret''))])"
    by (simp add: hosting_world_simps)
qed

section \<open>The sync sequence\<close>

lemma sync_world_branch:
  "getCurrentBranch (sync_world outcomes) []
     = (Inr ''feature-x'', [Command ''git rev-parse --abbrev-ref HEAD''])"
  by (simp add: getCurrentBranch_def truthy_def io_defs sync_world_def scripted_world_def
      trim_def isWhiteSpace_def)

lemma sync_world_execSync:
  "execSync (sync_world outcomes) t cmd
     = (case map_of ((''git rev-parse --abbrev-ref HEAD'', Inr (''feature-x'' @ [CHR 0x0A])) # outcomes) cmd of
          None \<Rightarrow> Inr [] | Some r \<Rightarrow> r)"
  by (simp add: sync_world_def scripted_world_def)

text \<open>
  Claim C3. When the first push fails, \<open>syncWithMain\<close> raises the sync error at once:
  the push is the last command run, so neither the fetch nor the rebase is attempted.
\<close>

theorem initial_push_failure_fails_fast:
  assumes "getCurrentBranch w t = (Inr currentBranch, t1)"
    and "execSync w t1 (''git push origin '' @ currentBranch) = Inl error"
  shows "syncWithMain w t
         = (Inl (Error (''Please ensure your changes are committed and try again: ''
                        @ error_toString error)),
            t1 @ [Command (''git push origin '' @ currentBranch)])"
  using assms by (simp add: syncWithMain_def io_defs)

theorem initial_push_failure_fails_fast_witness:
  "syncWithMain (sync_world rejected_push) []
   = (Inl (Error ''Please ensure your changes are committed and try again: Error: Command failed: git push origin feature-x''),
      [Command ''git rev-parse --abbrev-ref HEAD'', Command ''git push origin feature-x''])"
proof -
  have "execSync (sync_world rejected_push) [Command ''git rev-parse --abbrev-ref HEAD'']
          (''git push origin '' @ ''feature-x'')
        = Inl (Thrown ''Error: Command failed: git push origin feature-x'')"
    by (simp add: sync_world_execSync rejected_push_def)
  from initial_push_failure_fails_fast [OF sync_world_branch this]
  show ?thesis by simp
qed

text \<open>
  What \<open>syncWithMain\<close> does once the rebase has failed: the handler of lines 168 to 172
  runs the abort command, so no force-push is attempted, and the outcome is decided by the
  abort command, which the handler does not guard.
\<close>

lemma syncWithMain_failed_rebase:
  assumes "getCurrentBranch w t = (Inr currentBranch, t1)"
    and "execSync w t1 (''git push origin '' @ currentBranch) = Inr pushed"
    and "execSync w (t1 @ [Command (''git push origin '' @ currentBranch)]) ''git fetch origin''
         = Inr fetched"
    and "execSync w (t1 @ [Command (''git push origin '' @ currentBranch),
                           Command ''git fetch origin'']) ''git rebase origin/main''
         = Inl error"
  shows "syncWithMain w t
         = ((case execSync w (t1 @ [Command (''git push origin '' @ currentBranch),
                                   Command ''git fetch origin'',
                                   Command ''git rebase origin/main'']) ''git rebase --abort'' of
               Inl thrown \<Rightarrow> Inl thrown
             | Inr aborted \<Rightarrow>
                 Inl (Error ''Please manually rebase your branch on main and resolve conflicts before creating PR'')),
            t1 @ [Command (''git push origin '' @ currentBranch), Command ''git fetch origin'',
                  Command ''git rebase origin/main'', Command ''git rebase --abort''])"
  using assms by (simp add: syncWithMain_def io_defs split: sum.split)

text \<open>
  Claim C2. A failed rebase is to end in the conflict error, after the abort command and
  with no force-push. The handler attempts this, but runs the abort command unguarded: here
  the rebase is refused before it starts, the abort command fails in turn, and its error is
  raised in place of the conflict error of line 171.
\<close>

theorem rebase_failure_raises_abort_error:
  "syncWithMain (sync_world unstarted_rebase) []
   = (Inl (Thrown ''fatal: No rebase in progress?''),
      [Command ''git rev-parse --abbrev-ref HEAD'', Command ''git push origin feature-x'',
       Command ''git fetch origin'', Command ''git rebase origin/main'',
       Command ''git rebase --abort''])"
  by (simp add: syncWithMain_def io_defs sync_world_branch sync_world_execSync
      unstarted_rebase_def)

text \<open>
  What \<open>syncWithMain\<close> does once the rebase has succeeded and the force-push has failed:
  the same handler runs the abort command, and again the abort command decides the outcome.
\<close>

lemma syncWithMain_failed_force_push:
  assumes "getCurrentBranch w t = (Inr currentBranch, t1)"
    and "execSync w t1 (''git push origin '' @ currentBranch) = Inr pushed"
    and "execSync w (t1 @ [Command (''git push origin '' @ currentBranch)]) ''git fetch origin''
         = Inr fetched"
    and "execSync w (t1 @ [Command (''git push origin '' @ currentBranch),
                           Command ''git fetch origin'']) ''git rebase origin/main''
         = Inr rebased"
    and "execSync w (t1 @ [Command (''git push origin '' @ currentBranch),
                           Command ''git fetch origin'', Command ''git rebase origin/main''])
           ''git push --force-with-lease''
         = Inl error"
  shows "syncWithMain w t
         = ((case execSync w (t1 @ [Command (''git push origin '' @ currentBranch),
                                   Command ''git fetch origin'',
                                   Command ''git rebase origin/main'',
                                   Command ''git push --force-with-lease''])
                    ''git rebase --abort'' of
               Inl thrown \<Rightarrow> Inl thrown
             | Inr aborted \<Rightarrow>
                 Inl (Error ''Please manually rebase your branch on main and resolve conflicts before creating PR'')),
            t1 @ [Command (''git push origin '' @ currentBranch), Command ''git fetch origin'',
                  Command ''git rebase origin/main'', Command ''git push --force-with-lease'',
                  Command ''git rebase --abort''])"
  using assms by (simp add: syncWithMain_def io_defs split: sum.split)

text \<open>
  Claim C9. A force-push that fails after a completed rebase is to be reported as a rebase
  conflict, after the abort command. The abort command is run, but no rebase is in progress
  then, so it fails, and its error is raised in place of the conflict error.
\<close>

theorem force_push_failure_raises_abort_error:
  "syncWithMain (sync_world stale_lease_no_rebase) []
   = (Inl (Thrown ''fatal: No rebase in progress?''),
      [Command ''git rev-parse --abbrev-ref HEAD'', Command ''git push origin feature-x'',
       Command ''git fetch origin'', Command ''git rebase origin/main'',
       Command ''git push --force-with-lease'', Command ''git rebase --abort''])"
  by (simp add: syncWithMain_def io_defs sync_world_branch sync_world_execSync
      stale_lease_no_rebase_def)

end
